theory Spec2Isabelle
  imports Complex_Main
begin

section \<open>Python values used by the trade-book extractor\<close>

text \<open>
  The extractor (src/main.py) works on Python floats, strings and dictionaries.
  A float is modelled by the number it denotes: a finite value is a rational, and the
  two infinities and NaN are values of their own. Rounding to the nearest binary64 is
  not modelled (finite arithmetic is exact), but a magnitude beyond the binary64 range
  becomes an infinity, as it does in Python. The negative zero is not distinguished
  from zero: the source only compares, adds and truncates, where both behave alike.
\<close>

datatype pyfloat = Fin rat | PInf | NInf | NaN

text \<open>The dynamic types the source tests for: None, a string (the empty marker), a float.\<close>

datatype pyval = VNone | VStr string | VFloat pyfloat

datatype py_error = IndexError | ValueError | OverflowError | TypeError | UnboundLocalError

text \<open>The largest finite binary64 value; also the platform sentinel of line 152.\<close>

definition DBL_MAX :: rat where
  "DBL_MAX = (2 ^ 53 - 1) * 2 ^ 971"

definition MAX_FLOAT_SENTINEL :: pyfloat where
  "MAX_FLOAT_SENTINEL = Fin DBL_MAX"

text \<open>A result beyond the range rounds to an infinity (the bound is DBL_MAX plus half an ulp).\<close>

definition fin_or_inf :: "rat \<Rightarrow> pyfloat" where
  "fin_or_inf q =
     (if 2 ^ 1024 - 2 ^ 970 \<le> q then PInf
      else if q \<le> - (2 ^ 1024 - 2 ^ 970) then NInf
      else Fin q)"

fun py_fadd :: "pyfloat \<Rightarrow> pyfloat \<Rightarrow> pyfloat" where
  "py_fadd NaN _ = NaN"
| "py_fadd _ NaN = NaN"
| "py_fadd PInf NInf = NaN"
| "py_fadd NInf PInf = NaN"
| "py_fadd PInf _ = PInf"
| "py_fadd _ PInf = PInf"
| "py_fadd NInf _ = NInf"
| "py_fadd _ NInf = NInf"
| "py_fadd (Fin a) (Fin b) = fin_or_inf (a + b)"

fun py_fneg :: "pyfloat \<Rightarrow> pyfloat" where
  "py_fneg (Fin a) = Fin (- a)"
| "py_fneg PInf = NInf"
| "py_fneg NInf = PInf"
| "py_fneg NaN = NaN"

definition py_fsub :: "pyfloat \<Rightarrow> pyfloat \<Rightarrow> pyfloat" where
  "py_fsub a b = py_fadd a (py_fneg b)"

fun py_fsgn :: "pyfloat \<Rightarrow> int" where
  "py_fsgn (Fin a) = (if a < 0 then - 1 else if a = 0 then 0 else 1)"
| "py_fsgn PInf = 1"
| "py_fsgn NInf = - 1"
| "py_fsgn NaN = 0"

fun py_fmul :: "pyfloat \<Rightarrow> pyfloat \<Rightarrow> pyfloat" where
  "py_fmul NaN _ = NaN"
| "py_fmul _ NaN = NaN"
| "py_fmul (Fin a) (Fin b) = fin_or_inf (a * b)"
| "py_fmul a b =
     (let s = py_fsgn a * py_fsgn b
      in if s = 0 then NaN else if 0 < s then PInf else NInf)"

fun py_fabs :: "pyfloat \<Rightarrow> pyfloat" where
  "py_fabs (Fin a) = Fin \<bar>a\<bar>"
| "py_fabs PInf = PInf"
| "py_fabs NInf = PInf"
| "py_fabs NaN = NaN"

text \<open>Comparisons: every comparison with NaN is false, except \<open>!=\<close>.\<close>

fun py_flt :: "pyfloat \<Rightarrow> pyfloat \<Rightarrow> bool" where
  "py_flt NaN _ = False"
| "py_flt _ NaN = False"
| "py_flt (Fin a) (Fin b) = (a < b)"
| "py_flt NInf NInf = False"
| "py_flt NInf _ = True"
| "py_flt _ NInf = False"
| "py_flt PInf _ = False"
| "py_flt (Fin a) PInf = True"

fun py_feq :: "pyfloat \<Rightarrow> pyfloat \<Rightarrow> bool" where
  "py_feq NaN _ = False"
| "py_feq _ NaN = False"
| "py_feq a b = (a = b)"

definition py_fne :: "pyfloat \<Rightarrow> pyfloat \<Rightarrow> bool" where
  "py_fne a b = (\<not> py_feq a b)"

text \<open>\<open>int(x)\<close> of a float truncates towards zero; NaN and the infinities raise.\<close>

fun py_int_of_float :: "pyfloat \<Rightarrow> py_error + int" where
  "py_int_of_float (Fin a) = Inr (if 0 \<le> a then \<lfloor>a\<rfloor> else - \<lfloor>- a\<rfloor>)"
| "py_int_of_float NaN = Inl ValueError"
| "py_int_of_float PInf = Inl OverflowError"
| "py_int_of_float NInf = Inl OverflowError"

section \<open>Strings\<close>

definition is_digit :: "char \<Rightarrow> bool" where
  "is_digit c = (c \<in> set ''0123456789'')"

text \<open>The ASCII characters for which \<open>str.isspace\<close> holds.\<close>

definition is_space :: "char \<Rightarrow> bool" where
  "is_space c =
     (c \<in> set [CHR '' '', CHR 0x09, CHR 0x0A, CHR 0x0B, CHR 0x0C, CHR 0x0D,
                CHR 0x1C, CHR 0x1D, CHR 0x1E, CHR 0x1F])"

text \<open>The value of a digit: its position among the ten digits; any other character counts 0.\<close>

definition digit_val :: "char \<Rightarrow> nat" where
  "digit_val c =
     (let n = length (takeWhile (\<lambda>d. d \<noteq> c) ''0123456789'') in if n < 10 then n else 0)"

definition digit_char :: "nat \<Rightarrow> char" where
  "digit_char n = ''0123456789'' ! (n mod 10)"

text \<open>The value of a string of decimal digits, most significant first.\<close>

definition digits_val :: "string \<Rightarrow> nat" where
  "digits_val ds = foldl (\<lambda>acc c. 10 * acc + digit_val c) 0 ds"

text \<open>\<open>str(n)\<close> of an integer.\<close>

function str_nat :: "nat \<Rightarrow> string" where
  "str_nat n = (if n < 10 then [digit_char n] else str_nat (n div 10) @ [digit_char n])"
  by pat_completeness auto
termination
  by (relation "measure id") auto

declare str_nat.simps [simp del]

definition str_int :: "int \<Rightarrow> string" where
  "str_int i = (if i < 0 then CHR ''-'' # str_nat (nat (- i)) else str_nat (nat i))"

text \<open>\<open>s.strip()\<close> and \<open>s.split()\<close> on whitespace.\<close>

definition strip :: "string \<Rightarrow> string" where
  "strip s = rev (dropWhile is_space (rev (dropWhile is_space s)))"

fun split_ws_aux :: "string \<Rightarrow> string \<Rightarrow> string list" where
  "split_ws_aux cur [] = (if cur = [] then [] else [rev cur])"
| "split_ws_aux cur (c # cs) =
     (if is_space c then (if cur = [] then split_ws_aux [] cs else rev cur # split_ws_aux [] cs)
      else split_ws_aux (c # cur) cs)"

definition split_ws :: "string \<Rightarrow> string list" where
  "split_ws s = split_ws_aux [] s"

text \<open>\<open>sub in s\<close> for strings.\<close>

fun str_contains :: "string \<Rightarrow> string \<Rightarrow> bool" where
  "str_contains sub [] = (sub = [])"
| "str_contains sub (c # cs) = (take (length sub) (c # cs) = sub \<or> str_contains sub cs)"

definition lower_char :: "char \<Rightarrow> char" where
  "lower_char c =
     (let n = (of_char c :: nat) in if 65 \<le> n \<and> n \<le> 90 then char_of (n + 32) else c)"

section \<open>Library functions: \<open>int\<close>, \<open>float\<close>, \<open>strptime\<close>, \<open>strftime\<close>, \<open>sorted\<close>\<close>

text \<open>
  Underscores in a numeric literal are accepted only between two digits; the function
  removes them, or fails. The first argument is the previous character.
\<close>

fun strip_underscores :: "char \<Rightarrow> string \<Rightarrow> string option" where
  "strip_underscores prev [] = (if prev = CHR ''_'' then None else Some [])"
| "strip_underscores prev (c # cs) =
     (if c = CHR ''_'' then (if is_digit prev then strip_underscores c cs else None)
      else if prev = CHR ''_'' \<and> \<not> is_digit c then None
      else map_option ((#) c) (strip_underscores c cs))"

definition split_sign :: "string \<Rightarrow> bool \<times> string" where
  "split_sign t =
     (case t of
        [] \<Rightarrow> (False, [])
      | c # r \<Rightarrow> if c = CHR ''-'' then (True, r) else if c = CHR ''+'' then (False, r)
                 else (False, t))"

text \<open>\<open>int(s)\<close> of a string, base 10: None stands for the ValueError.\<close>

definition py_int_str :: "string \<Rightarrow> int option" where
  "py_int_str s =
     (case split_sign (strip s) of (neg, body) \<Rightarrow>
        (case strip_underscores (CHR 0x00) body of
           None \<Rightarrow> None
         | Some ds \<Rightarrow>
             if ds \<noteq> [] \<and> list_all is_digit ds
             then Some (if neg then - int (digits_val ds) else int (digits_val ds))
             else None))"

definition dec_value :: "nat \<Rightarrow> int \<Rightarrow> rat" where
  "dec_value m e = (if 0 \<le> e then of_nat m * 10 ^ nat e else of_nat m / 10 ^ nat (- e))"

text \<open>The exponent part of a decimal literal: empty, or e, an optional sign and digits.\<close>

definition parse_exponent :: "string \<Rightarrow> int option" where
  "parse_exponent r =
     (case r of
        [] \<Rightarrow> Some 0
      | c # r' \<Rightarrow>
          if c = CHR ''e'' \<or> c = CHR ''E'' then
            (case split_sign r' of (neg, ds) \<Rightarrow>
               if ds \<noteq> [] \<and> list_all is_digit ds
               then Some (if neg then - int (digits_val ds) else int (digits_val ds))
               else None)
          else None)"

definition parse_decimal :: "string \<Rightarrow> rat option" where
  "parse_decimal b =
     (let ip = takeWhile is_digit b; r1 = dropWhile is_digit b;
          fp = (case r1 of [] \<Rightarrow> [] | c # r \<Rightarrow> if c = CHR ''.'' then takeWhile is_digit r else []);
          r2 = (case r1 of [] \<Rightarrow> [] | c # r \<Rightarrow> if c = CHR ''.'' then dropWhile is_digit r else r1)
      in if ip = [] \<and> fp = [] then None
         else (case parse_exponent r2 of
                 None \<Rightarrow> None
               | Some e \<Rightarrow> Some (dec_value (digits_val (ip @ fp)) (e - int (length fp)))))"

text \<open>\<open>float(s)\<close> of a string: None stands for the ValueError.\<close>

definition py_float_str :: "string \<Rightarrow> pyfloat option" where
  "py_float_str s =
     (case strip_underscores (CHR 0x00) (strip s) of
        None \<Rightarrow> None
      | Some t \<Rightarrow>
          (case split_sign t of (neg, body) \<Rightarrow>
             (let low = map lower_char body
              in if low = ''inf'' \<or> low = ''infinity'' then Some (if neg then NInf else PInf)
                 else if low = ''nan'' then Some NaN
                 else (case parse_decimal body of
                         None \<Rightarrow> None
                       | Some q \<Rightarrow> Some (fin_or_inf (if neg then - q else q))))))"

text \<open>\<open>float(v)\<close> of a value: the identity on floats, a TypeError on None.\<close>

fun py_float :: "pyval \<Rightarrow> py_error + pyfloat" where
  "py_float (VFloat f) = Inr f"
| "py_float (VStr s) = (case py_float_str s of None \<Rightarrow> Inl ValueError | Some f \<Rightarrow> Inr f)"
| "py_float VNone = Inl TypeError"

text \<open>Truth value of a value in a condition.\<close>

fun truthy :: "pyval \<Rightarrow> bool" where
  "truthy VNone = False"
| "truthy (VStr s) = (s \<noteq> [])"
| "truthy (VFloat f) = (f \<noteq> Fin 0)"

subsection \<open>Timestamps\<close>

text \<open>
  \<open>datetime.strptime\<close> compiles the format into a regular expression, takes its first
  match (alternatives in the order written, \<open>\s+\<close> greedy) and raises when the match
  leaves input over or the fields are no date. A field parser returns all its matches
  in the order the regular expression tries them.
\<close>

record datetime =
  dt_year :: nat
  dt_month :: nat
  dt_day :: nat
  dt_hour :: nat
  dt_minute :: nat
  dt_second :: nat

type_synonym 'a rx = "string \<Rightarrow> ('a \<times> string) list"

definition rx2 :: "(char \<Rightarrow> bool) \<Rightarrow> (char \<Rightarrow> bool) \<Rightarrow> nat rx" where
  "rx2 P Q s =
     (case s of
        a # b # r \<Rightarrow> if P a \<and> Q b then [(10 * digit_val a + digit_val b, r)] else []
      | _ \<Rightarrow> [])"

definition rx1 :: "(char \<Rightarrow> bool) \<Rightarrow> nat rx" where
  "rx1 P s = (case s of a # r \<Rightarrow> if P a then [(digit_val a, r)] else [] | _ \<Rightarrow> [])"

definition rx_lit :: "char \<Rightarrow> string \<Rightarrow> string list" where
  "rx_lit c s = (case s of a # r \<Rightarrow> if a = c then [r] else [] | _ \<Rightarrow> [])"

definition rx_spaces :: "string \<Rightarrow> string list" where
  "rx_spaces s = map (\<lambda>k. drop k s) (rev [1 ..< Suc (length (takeWhile is_space s))])"

definition in_chars :: "string \<Rightarrow> char \<Rightarrow> bool" where
  "in_chars cs c = (c \<in> set cs)"

text \<open>\<open>%Y\<close>: four digits.\<close>

definition rx_Y :: "nat rx" where
  "rx_Y s =
     (case s of
        a # b # c # d # r \<Rightarrow>
          if is_digit a \<and> is_digit b \<and> is_digit c \<and> is_digit d
          then [(digits_val [a, b, c, d], r)] else []
      | _ \<Rightarrow> [])"

text \<open>\<open>%m\<close>: \<open>1[0-2]|0[1-9]|[1-9]\<close>.\<close>

definition rx_m :: "nat rx" where
  "rx_m s = rx2 (in_chars ''1'') (in_chars ''012'') s @ rx2 (in_chars ''0'') (in_chars ''123456789'') s
            @ rx1 (in_chars ''123456789'') s"

text \<open>\<open>%d\<close>: \<open>3[0-1]|[1-2]\d|0[1-9]|[1-9]| [1-9]\<close>.\<close>

definition rx_d :: "nat rx" where
  "rx_d s = rx2 (in_chars ''3'') (in_chars ''01'') s @ rx2 (in_chars ''12'') is_digit s
            @ rx2 (in_chars ''0'') (in_chars ''123456789'') s @ rx1 (in_chars ''123456789'') s
            @ rx2 (in_chars '' '') (in_chars ''123456789'') s"

text \<open>\<open>%H\<close>: \<open>2[0-3]|[0-1]\d|\d\<close>.\<close>

definition rx_H :: "nat rx" where
  "rx_H s = rx2 (in_chars ''2'') (in_chars ''0123'') s @ rx2 (in_chars ''01'') is_digit s
            @ rx1 is_digit s"

text \<open>\<open>%M\<close>: \<open>[0-5]\d|\d\<close>.\<close>

definition rx_M :: "nat rx" where
  "rx_M s = rx2 (in_chars ''012345'') is_digit s @ rx1 is_digit s"

text \<open>\<open>%S\<close>: \<open>6[0-1]|[0-5]\d|\d\<close>.\<close>

definition rx_S :: "nat rx" where
  "rx_S s = rx2 (in_chars ''6'') (in_chars ''01'') s @ rx2 (in_chars ''012345'') is_digit s
            @ rx1 is_digit s"

text \<open>Sequencing: every match of the first, continued by every match of the rest.\<close>

definition rx_then :: "'a rx \<Rightarrow> ('a \<Rightarrow> 'b rx) \<Rightarrow> 'b rx" where
  "rx_then p f s = concat (map (\<lambda>(a, r). f a r) (p s))"

definition rx_skip :: "(string \<Rightarrow> string list) \<Rightarrow> 'b rx \<Rightarrow> 'b rx" where
  "rx_skip p q s = concat (map q (p s))"

text \<open>\<open>%H:%M:%S\<close>, the tail of both formats.\<close>

definition rx_hms :: "(nat \<times> nat \<times> nat) rx" where
  "rx_hms =
     rx_then rx_H (\<lambda>h. rx_skip (rx_lit CHR '':'')
       (rx_then rx_M (\<lambda>mi. rx_skip (rx_lit CHR '':'')
         (rx_then rx_S (\<lambda>sec r. [((h, mi, sec), r)])))))"

definition leap_year :: "nat \<Rightarrow> bool" where
  "leap_year y = (y mod 4 = 0 \<and> (y mod 100 \<noteq> 0 \<or> y mod 400 = 0))"

definition days_in_month :: "nat \<Rightarrow> nat \<Rightarrow> nat" where
  "days_in_month y m =
     (if m = 2 then (if leap_year y then 29 else 28)
      else if m = 4 \<or> m = 6 \<or> m = 9 \<or> m = 11 then 30 else 31)"

text \<open>
  The first match must use up the input, and the \<open>datetime\<close> constructor checks the
  fields (year from 1, the day within the month, no leap second).
\<close>

definition make_datetime :: "(datetime \<times> string) list \<Rightarrow> datetime option" where
  "make_datetime ms =
     (case ms of
        [] \<Rightarrow> None
      | (dt, r) # _ \<Rightarrow>
          if r = [] \<and> 1 \<le> dt_year dt \<and> 1 \<le> dt_month dt \<and> dt_month dt \<le> 12
             \<and> 1 \<le> dt_day dt \<and> dt_day dt \<le> days_in_month (dt_year dt) (dt_month dt)
             \<and> dt_hour dt \<le> 23 \<and> dt_minute dt \<le> 59 \<and> dt_second dt \<le> 59
          then Some dt else None)"

text \<open>\<open>datetime.strptime(s, '%Y%m%d  %H:%M:%S')\<close>: None stands for the exception.\<close>

definition strptime_tws :: "string \<Rightarrow> datetime option" where
  "strptime_tws s =
     make_datetime
       (rx_then rx_Y (\<lambda>y. rx_then rx_m (\<lambda>m. rx_then rx_d (\<lambda>d. rx_skip rx_spaces
          (rx_then rx_hms (\<lambda>(h, mi, sec) r.
             [(\<lparr>dt_year = y, dt_month = m, dt_day = d,
                 dt_hour = h, dt_minute = mi, dt_second = sec\<rparr>, r)]))))) s)"

text \<open>\<open>datetime.strptime(s, '%d.%m.%Y %H:%M:%S')\<close>.\<close>

definition strptime_display :: "string \<Rightarrow> datetime option" where
  "strptime_display s =
     make_datetime
       (rx_then rx_d (\<lambda>d. rx_skip (rx_lit CHR ''.'') (rx_then rx_m (\<lambda>m. rx_skip (rx_lit CHR ''.'')
          (rx_then rx_Y (\<lambda>y. rx_skip rx_spaces
             (rx_then rx_hms (\<lambda>(h, mi, sec) r.
                [(\<lparr>dt_year = y, dt_month = m, dt_day = d,
                    dt_hour = h, dt_minute = mi, dt_second = sec\<rparr>, r)]))))))) s)"

definition pad2 :: "nat \<Rightarrow> string" where
  "pad2 n = (if n < 10 then CHR ''0'' # str_nat n else str_nat n)"

text \<open>
  \<open>dt.strftime('%d.%m.%Y %H:%M:%S')\<close>. The year is written as the C library does on
  Linux, without padding (only years before 1000 are concerned).
\<close>

definition strftime_display :: "datetime \<Rightarrow> string" where
  "strftime_display dt =
     pad2 (dt_day dt) @ ''.'' @ pad2 (dt_month dt) @ ''.'' @ str_nat (dt_year dt) @ '' ''
     @ pad2 (dt_hour dt) @ '':'' @ pad2 (dt_minute dt) @ '':'' @ pad2 (dt_second dt)"

subsection \<open>Sorting\<close>

text \<open>
  \<open>sorted(xs, key=f)\<close> is stable. On keys without NaN the result is the stable sort by
  \<open>py_flt\<close>; with a NaN among the keys Python's order depends on its algorithm, and
  the order given here is only one possible choice.
\<close>

fun insort_by :: "('a \<Rightarrow> pyfloat) \<Rightarrow> 'a \<Rightarrow> 'a list \<Rightarrow> 'a list" where
  "insort_by f x [] = [x]"
| "insort_by f x (y # ys) = (if py_flt (f x) (f y) then x # y # ys else y # insort_by f x ys)"

definition sorted_by :: "('a \<Rightarrow> pyfloat) \<Rightarrow> 'a list \<Rightarrow> 'a list" where
  "sorted_by f xs = foldl (\<lambda>acc x. insort_by f x acc) [] xs"

text \<open>\<open>sorted(xs, reverse=True)\<close>: reverse, sort, reverse, which keeps the sort stable.\<close>

definition sorted_reverse :: "pyfloat list \<Rightarrow> pyfloat list" where
  "sorted_reverse xs = rev (sorted_by (\<lambda>x. x) (rev xs))"

section \<open>The data model\<close>

text \<open>
  A normalized trade record is the dictionary built at lines 167-180. Price and
  Commission are the floats the broker interface decodes; the two PnL fields hold the
  empty string or a float, and later code also tolerates other values there.
  Records are values here: the dictionaries of a batch are taken to be distinct
  objects, as those that \<open>process_executions\<close> builds are, so that writing a field of
  one record changes no other record. Output to the console is not modelled.
\<close>

record trade =
  Account :: string
  Action :: string
  Date_Time :: string
  Quantity :: pyfloat
  Symbol :: string
  Security_Info :: string
  Currency :: string
  Price :: pyfloat
  Commission :: pyfloat
  Unrealized_PnL :: pyval
  Realized_PnL :: pyval
  Exchange :: string

text \<open>The raw input: the contract and execution objects of one fill.\<close>

record contract =
  symbol :: string
  secType :: string
  currency :: string
  exchange :: string
  lastTradeDateOrContractMonth :: string
  strike :: pyfloat
  right :: string

record execution =
  acctNumber :: string
  side :: string
  time :: string
  shares :: pyfloat
  price :: pyfloat
  execId :: string
  orderRef :: string

text \<open>An entry of \<open>commission_report\<close>, as \<open>commissionReport\<close> stores it (lines 33-37).\<close>

record commission_entry =
  cr_commission :: pyfloat
  cr_currency :: string
  cr_realizedPNL :: pyval

record app =
  executions :: "(contract \<times> execution) list"
  commission_report :: "string \<rightharpoonup> commission_entry"

section \<open>\<open>process_executions\<close> (lines 83-182)\<close>

definition month_names :: "string list" where
  "month_names = [''JAN'', ''FEB'', ''MAR'', ''APR'', ''MAY'', ''JUN'',
                  ''JUL'', ''AUG'', ''SEP'', ''OCT'', ''NOV'', ''DEC'']"

text \<open>\<open>xs[i]\<close> with Python's negative indices.\<close>

definition py_index :: "'a list \<Rightarrow> int \<Rightarrow> py_error + 'a" where
  "py_index xs i =
     (if 0 \<le> i \<and> i < int (length xs) then Inr (xs ! nat i)
      else if - int (length xs) \<le> i \<and> i < 0 then Inr (xs ! nat (int (length xs) + i))
      else Inl IndexError)"

text \<open>\<open>f"{day:02d}"\<close>: zero padding to width two, the sign counted in the width.\<close>

definition format_02d :: "int \<Rightarrow> string" where
  "format_02d d = (if 0 \<le> d \<and> d < 10 then CHR ''0'' # str_int d else str_int d)"

text \<open>\<open>s[-2:]\<close>.\<close>

definition last_two :: "string \<Rightarrow> string" where
  "last_two s = drop (length s - 2) s"

text \<open>
  Lines 122-132, the descriptor of an option or future option. The text of the strike
  is Python's \<open>str\<close> of a float, which is not defined here: it is the parameter
  \<open>float_str\<close>, and every result below holds for each such function.
\<close>

definition option_security_info :: "(pyfloat \<Rightarrow> string) \<Rightarrow> contract \<Rightarrow> py_error + string" where
  "option_security_info float_str c =
     (let expiry_date_str = lastTradeDateOrContractMonth c
      in case py_int_str (take 4 expiry_date_str) of
           None \<Rightarrow> Inl ValueError
         | Some year \<Rightarrow>
             (case py_int_str (take 2 (drop 4 expiry_date_str)) of
                None \<Rightarrow> Inl ValueError
              | Some month \<Rightarrow>
                  (case py_int_str (take 2 (drop 6 expiry_date_str)) of
                     None \<Rightarrow> Inl ValueError
                   | Some day \<Rightarrow>
                       (case py_index month_names (month - 1) of
                          Inl e \<Rightarrow> Inl e
                        | Inr mon \<Rightarrow>
                            Inr (mon @ [CHR 0x27] @ format_02d day @ [CHR 0x27]
                                 @ last_two (str_int year) @ '' '' @ float_str (strike c) @ '' ''
                                 @ (if right c = ''C'' then ''CALL'' else ''PUT''))))))"

text \<open>
  Lines 119-132. The local variable \<open>security_info\<close> is assigned only for the three
  classes STK, OPT and FOP; for any other class it keeps the binding of the previous
  iteration of the loop, or none (\<open>None\<close>) in the first one.
\<close>

definition bind_security_info ::
  "(pyfloat \<Rightarrow> string) \<Rightarrow> string option \<Rightarrow> contract \<Rightarrow> py_error + string option" where
  "bind_security_info float_str prev c =
     (if secType c = ''STK'' then Inr (Some ''STOCK'')
      else if secType c = ''OPT'' \<or> secType c = ''FOP'' then
        (case option_security_info float_str c of Inl e \<Rightarrow> Inl e | Inr s \<Rightarrow> Inr (Some s))
      else Inr prev)"

text \<open>Line 95.\<close>

definition side_action :: "execution \<Rightarrow> string" where
  "side_action e = (if side e = ''BOT'' then ''BOT'' else ''SLD'')"

text \<open>Lines 98-103: the display form of the time, or the raw string when it does not parse.\<close>

definition exec_time_of :: "execution \<Rightarrow> string" where
  "exec_time_of e =
     (case strptime_tws (time e) of Some dt \<Rightarrow> strftime_display dt | None \<Rightarrow> time e)"

text \<open>Lines 135-139.\<close>

definition commission_value_of :: "(string \<rightharpoonup> commission_entry) \<Rightarrow> execution \<Rightarrow> pyfloat" where
  "commission_value_of cr e =
     (case cr (execId e) of None \<Rightarrow> Fin 0 | Some r \<Rightarrow> cr_commission r)"

definition realized_pnl_from_tws :: "(string \<rightharpoonup> commission_entry) \<Rightarrow> execution \<Rightarrow> pyval" where
  "realized_pnl_from_tws cr e =
     (case cr (execId e) of None \<Rightarrow> VNone | Some r \<Rightarrow> cr_realizedPNL r)"

text \<open>Lines 145 and 152-165.\<close>

definition realized_pnl_of :: "pyval \<Rightarrow> pyval" where
  "realized_pnl_of v =
     (case v of
        VNone \<Rightarrow> VStr []
      | VFloat f \<Rightarrow> if py_fne (py_fabs f) MAX_FLOAT_SENTINEL then VFloat f else VStr []
      | VStr s \<Rightarrow> (case py_float (VStr s) of Inr f \<Rightarrow> VFloat f | Inl _ \<Rightarrow> VStr []))"

text \<open>
  The body of the loop for one fill: the record appended at line 167 and the binding of
  \<open>security_info\<close> it leaves, or the exception it raises. Reading the unbound variable
  at line 173 is the UnboundLocalError.
\<close>

definition normalize_execution ::
  "(pyfloat \<Rightarrow> string) \<Rightarrow> (string \<rightharpoonup> commission_entry) \<Rightarrow> string option \<Rightarrow>
     contract \<times> execution \<Rightarrow> py_error + (trade \<times> string option)" where
  "normalize_execution float_str cr prev ce =
     (case ce of (c, e) \<Rightarrow>
        (case bind_security_info float_str prev c of
           Inl err \<Rightarrow> Inl err
         | Inr bound \<Rightarrow>
             (let commission_value = commission_value_of cr e;
                  action = (if py_feq (price e) (Fin 0) \<and> py_feq commission_value (Fin 0)
                            then ''EXPIRED'' else side_action e);
                  unrealized_pnl =
                    (if str_contains ''OptTrader'' (orderRef e)
                     then VFloat (py_fsub (py_fmul (price e) (Fin 100)) commission_value)
                     else VStr []);
                  realized_pnl = realized_pnl_of (realized_pnl_from_tws cr e)
              in case bound of
                   None \<Rightarrow> Inl UnboundLocalError
                 | Some security_info \<Rightarrow>
                     Inr (\<lparr>Account = acctNumber e, Action = action, Date_Time = exec_time_of e,
                           Quantity = shares e, Symbol = symbol c, Security_Info = security_info,
                           Currency = currency c, Price = price e, Commission = commission_value,
                           Unrealized_PnL = unrealized_pnl, Realized_PnL = realized_pnl,
                           Exchange = exchange c\<rparr>, bound))))"

text \<open>The loop of line 87; the first exception ends it.\<close>

fun process_loop ::
  "(pyfloat \<Rightarrow> string) \<Rightarrow> (string \<rightharpoonup> commission_entry) \<Rightarrow> string option \<Rightarrow>
     (contract \<times> execution) list \<Rightarrow> py_error + trade list" where
  "process_loop float_str cr prev [] = Inr []"
| "process_loop float_str cr prev (ce # rest) =
     (case normalize_execution float_str cr prev ce of
        Inl err \<Rightarrow> Inl err
      | Inr (t, bound) \<Rightarrow>
          (case process_loop float_str cr bound rest of
             Inl err \<Rightarrow> Inl err
           | Inr ts \<Rightarrow> Inr (t # ts)))"

definition process_executions :: "(pyfloat \<Rightarrow> string) \<Rightarrow> app \<Rightarrow> py_error + trade list" where
  "process_executions float_str a = process_loop float_str (commission_report a) None (executions a)"

section \<open>\<open>mark_assigned_options\<close> (lines 184-204)\<close>

definition trade_key :: "trade \<Rightarrow> string \<times> string" where
  "trade_key t = (Symbol t, Date_Time t)"

text \<open>Lines 188-193: the dictionary from key to the stock trades with that key.\<close>

fun stock_index ::
  "(string \<times> string \<rightharpoonup> trade list) \<Rightarrow> trade list \<Rightarrow> (string \<times> string \<rightharpoonup> trade list)" where
  "stock_index stock_trades [] = stock_trades"
| "stock_index stock_trades (t # ts) =
     (if Security_Info t = ''STOCK'' then
        stock_index
          (stock_trades(trade_key t \<mapsto>
             (case stock_trades (trade_key t) of None \<Rightarrow> [] | Some l \<Rightarrow> l) @ [t])) ts
      else stock_index stock_trades ts)"

text \<open>Lines 196-202 for one record.\<close>

definition mark_trade :: "(string \<times> string \<rightharpoonup> trade list) \<Rightarrow> trade \<Rightarrow> trade" where
  "mark_trade stock_trades t =
     (if Security_Info t \<noteq> ''STOCK'' \<and> py_feq (Price t) (Fin 0) \<and> py_feq (Commission t) (Fin 0)
      then (if stock_trades (trade_key t) \<noteq> None then t\<lparr>Action := ''ASSIGNED''\<rparr>
            else if Action t \<notin> set [''ASSIGNED'', ''BOT'', ''SLD''] then t\<lparr>Action := ''EXPIRED''\<rparr>
            else t)
      else t)"

text \<open>
  The second loop changes only the Action of records that are no stock records, so the
  index built by the first loop is the same before and after it.
\<close>

definition mark_assigned_options :: "trade list \<Rightarrow> trade list" where
  "mark_assigned_options trade_data =
     map (mark_trade (stock_index Map.empty trade_data)) trade_data"

section \<open>\<open>process_combos\<close> (lines 206-288)\<close>

text \<open>
  Lines 210-224. \<open>trade_groups\<close> is a dictionary that keeps the order in which its keys
  were first inserted: an association list, a new key added at the end.
\<close>

fun group_append ::
  "string \<times> string \<Rightarrow> trade \<Rightarrow> ((string \<times> string) \<times> trade list) list \<Rightarrow>
     ((string \<times> string) \<times> trade list) list" where
  "group_append k t [] = [(k, [t])]"
| "group_append k t ((k', ts) # gs) =
     (if k' = k then (k', ts @ [t]) # gs else (k', ts) # group_append k t gs)"

definition time_key :: "trade \<Rightarrow> (string \<times> string) option" where
  "time_key t =
     (case strptime_display (Date_Time t) of
        None \<Rightarrow> None
      | Some trade_time \<Rightarrow> Some (Symbol t, strftime_display trade_time))"


record partition =
  trade_groups :: "((string \<times> string) \<times> trade list) list"
  stocks_trades :: "trade list"
  parse_error_trades :: "trade list"

definition partition_step :: "partition \<Rightarrow> trade \<Rightarrow> partition" where
  "partition_step p t =
     (if Security_Info t = ''STOCKS'' then p\<lparr>stocks_trades := stocks_trades p @ [t]\<rparr>
      else (case time_key t of
              Some k \<Rightarrow> p\<lparr>trade_groups := group_append k t (trade_groups p)\<rparr>
            | None \<Rightarrow> p\<lparr>parse_error_trades := parse_error_trades p @ [t]\<rparr>))"

definition partition_trades :: "trade list \<Rightarrow> partition" where
  "partition_trades trade_data =
     foldl partition_step \<lparr>trade_groups = [], stocks_trades = [], parse_error_trades = []\<rparr>
       trade_data"

text \<open>Line 233.\<close>

definition has_negative :: "trade list \<Rightarrow> bool" where
  "has_negative trades = list_ex (\<lambda>t. py_flt (Price t) (Fin 0)) trades"

definition is_smart :: "trade \<Rightarrow> bool" where
  "is_smart t = (Exchange t = ''SMART'')"

text \<open>Line 236.\<close>

definition non_smart :: "trade list \<Rightarrow> trade list" where
  "non_smart trades = filter (\<lambda>t. \<not> is_smart t) trades"

text \<open>The key of line 239: \<open>float(x['Security_Info'].split()[1])\<close>.\<close>

definition strike_of :: "trade \<Rightarrow> py_error + pyfloat" where
  "strike_of t =
     (case split_ws (Security_Info t) of
        _ # tok # _ \<Rightarrow> (case py_float_str tok of None \<Rightarrow> Inl ValueError | Some f \<Rightarrow> Inr f)
      | _ \<Rightarrow> Inl IndexError)"

text \<open>Line 241: \<open>trade['Security_Info'].split()[2]\<close>.\<close>

definition type_of :: "trade \<Rightarrow> py_error + string" where
  "type_of t = (case split_ws (Security_Info t) of _ # _ # ty # _ \<Rightarrow> Inr ty | _ \<Rightarrow> Inl IndexError)"

text \<open>A list comprehension whose element may raise: the first exception wins.\<close>

fun map_err :: "('a \<Rightarrow> py_error + 'b) \<Rightarrow> 'a list \<Rightarrow> py_error + 'b list" where
  "map_err f [] = Inr []"
| "map_err f (x # xs) =
     (case f x of
        Inl e \<Rightarrow> Inl e
      | Inr y \<Rightarrow> (case map_err f xs of Inl e \<Rightarrow> Inl e | Inr ys \<Rightarrow> Inr (y # ys)))"

text \<open>\<open>'/'.join(parts)\<close>.\<close>

fun join_slash :: "string list \<Rightarrow> string" where
  "join_slash [] = []"
| "join_slash [x] = x"
| "join_slash (x # y # ys) = x @ ''/'' @ join_slash (y # ys)"

text \<open>
  Lines 239-249, the part of the \<open>try\<close> block that can raise: the keys are computed for
  all legs before the sort, then the types, then the two highest strikes are formatted.
  At line 242 the first record of the sorted list has a second token, since its key was
  computed, so its first token exists and \<open>split()[0]\<close> cannot raise.
\<close>

definition combined_security_info :: "trade list \<Rightarrow> py_error + string" where
  "combined_security_info legs =
     (case map_err strike_of legs of
        Inl e \<Rightarrow> Inl e
      | Inr keys \<Rightarrow>
          (let sorted_trades = map snd (sorted_by fst (zip keys legs));
               strikes = map fst (sorted_by fst (zip keys legs))
           in case map_err type_of sorted_trades of
                Inl e \<Rightarrow> Inl e
              | Inr types \<Rightarrow>
                  (let expiry_date =
                         (case sorted_trades of
                            [] \<Rightarrow> []
                          | t # _ \<Rightarrow> (case split_ws (Security_Info t) of [] \<Rightarrow> [] | tok # _ \<Rightarrow> tok))
                   in if strikes \<noteq> [] \<and> expiry_date \<noteq> [] then
                        (case map_err py_int_of_float (take 2 (sorted_reverse strikes)) of
                           Inl e \<Rightarrow> Inl e
                         | Inr first_two \<Rightarrow>
                             Inr (expiry_date @ '' '' @ join_slash (map str_int first_two)))
                      else Inr [])))"

text \<open>Lines 251-257.\<close>

definition pnl_step :: "pyfloat \<Rightarrow> trade \<Rightarrow> pyfloat" where
  "pnl_step pnl_sum t =
     (if truthy (Realized_PnL t) \<and> Realized_PnL t \<noteq> VStr [] then
        (case py_float (Realized_PnL t) of Inr f \<Rightarrow> py_fadd pnl_sum f | Inl _ \<Rightarrow> pnl_sum)
      else pnl_sum)"

definition pnl_sum_of :: "trade list \<Rightarrow> pyfloat" where
  "pnl_sum_of legs = foldl pnl_step (Fin 0) legs"

text \<open>Lines 261-271 for one record with the SMART exchange.\<close>

definition fold_into_primary :: "string \<Rightarrow> pyfloat \<Rightarrow> trade \<Rightarrow> trade" where
  "fold_into_primary info pnl_sum t =
     (let t1 = (if info \<noteq> [] then t\<lparr>Security_Info := info\<rparr> else t)
      in if py_fne pnl_sum (Fin 0) then
           (let current_pnl = Realized_PnL t1
            in if truthy current_pnl \<and> current_pnl \<noteq> VStr [] then
                 (case py_float current_pnl of
                    Inr f \<Rightarrow> t1\<lparr>Realized_PnL := VFloat (py_fadd f pnl_sum)\<rparr>
                  | Inl _ \<Rightarrow> t1\<lparr>Realized_PnL := VFloat pnl_sum\<rparr>)
               else t1\<lparr>Realized_PnL := VFloat pnl_sum\<rparr>)
         else t1)"

text \<open>
  Lines 228-283 for one group: the records it appends to \<open>processed_trades\<close>, or the
  exception that the handler of line 278 does not catch.
\<close>

definition process_group :: "trade list \<Rightarrow> py_error + trade list" where
  "process_group trades =
     (if length trades \<le> 1 then Inr trades
      else if has_negative trades then
        (case combined_security_info (non_smart trades) of
           Inl IndexError \<Rightarrow> Inr trades
         | Inl ValueError \<Rightarrow> Inr trades
         | Inl e \<Rightarrow> Inl e
         | Inr info \<Rightarrow>
             Inr (map (fold_into_primary info (pnl_sum_of (non_smart trades))) (filter is_smart trades)
                  @ (if \<not> list_ex is_smart trades then trades else [])))
      else Inr trades)"

fun process_groups :: "((string \<times> string) \<times> trade list) list \<Rightarrow> py_error + trade list" where
  "process_groups [] = Inr []"
| "process_groups ((k, trades) # gs) =
     (case process_group trades of
        Inl e \<Rightarrow> Inl e
      | Inr out \<Rightarrow> (case process_groups gs of Inl e \<Rightarrow> Inl e | Inr outs \<Rightarrow> Inr (out @ outs)))"

definition process_combos :: "trade list \<Rightarrow> py_error + trade list" where
  "process_combos trade_data =
     (let p = partition_trades trade_data
      in case process_groups (trade_groups p) of
           Inl e \<Rightarrow> Inl e
         | Inr processed_trades \<Rightarrow>
             Inr (processed_trades @ stocks_trades p @ parse_error_trades p))"




section \<open>The core pipeline and example inputs\<close>

text \<open>
  The three stages in the order the program runs them: \<open>process_executions\<close> at
  line 72, then \<open>mark_assigned_options\<close> and \<open>process_combos\<close> at lines 296-297.
\<close>

definition core_pipeline :: "(pyfloat \<Rightarrow> string) \<Rightarrow> app \<Rightarrow> py_error + trade list" where
  "core_pipeline float_str a =
     (case process_executions float_str a of
        Inl e \<Rightarrow> Inl e
      | Inr trade_data \<Rightarrow> process_combos (mark_assigned_options trade_data))"

text \<open>A call option on XYZ, the stock XYZ, and a future on XYZ.\<close>

definition option_contract :: contract where
  "option_contract =
     \<lparr>symbol = ''XYZ'', secType = ''OPT'', currency = ''USD'', exchange = ''CBOE'',
      lastTradeDateOrContractMonth = ''20240315'', strike = Fin 100, right = ''C''\<rparr>"

definition stock_contract :: contract where
  "stock_contract =
     \<lparr>symbol = ''XYZ'', secType = ''STK'', currency = ''USD'', exchange = ''SMART'',
      lastTradeDateOrContractMonth = [], strike = Fin 0, right = []\<rparr>"

definition future_contract :: contract where
  "future_contract =
     \<lparr>symbol = ''XYZ'', secType = ''FUT'', currency = ''USD'', exchange = ''CME'',
      lastTradeDateOrContractMonth = ''20240315'', strike = Fin 0, right = []\<rparr>"

text \<open>An option whose expiry field is empty.\<close>

definition no_expiry_contract :: contract where
  "no_expiry_contract = option_contract\<lparr>lastTradeDateOrContractMonth := []\<rparr>"

text \<open>A fill at price zero (an assignment) and a purchase at 100.\<close>

definition zero_price_execution :: execution where
  "zero_price_execution =
     \<lparr>acctNumber = ''U1'', side = ''BOT'', time = ''20240301  15:30:00'', shares = Fin 1,
      price = Fin 0, execId = ''0001'', orderRef = []\<rparr>"

definition purchase_execution :: execution where
  "purchase_execution =
     \<lparr>acctNumber = ''U1'', side = ''BOT'', time = ''20240301  15:30:00'', shares = Fin 100,
      price = Fin 100, execId = ''0002'', orderRef = []\<rparr>"

text \<open>
  The assignment of the option with the purchase of the stock at the same time. Only
  the purchase has a commission report, and its realized PnL is the sentinel.
\<close>

definition assignment_app :: app where
  "assignment_app =
     \<lparr>executions = [(option_contract, zero_price_execution), (stock_contract, purchase_execution)],
      commission_report =
        [''0002'' \<mapsto> \<lparr>cr_commission = Fin 1, cr_currency = ''USD'',
                        cr_realizedPNL = VFloat MAX_FLOAT_SENTINEL\<rparr>]\<rparr>"

definition example_float_str :: "pyfloat \<Rightarrow> string" where
  "example_float_str f = ''100.0''"

definition assignment_trades :: "trade list" where
  "assignment_trades =
     [\<lparr>Account = ''U1'', Action = ''EXPIRED'', Date_Time = ''01.03.2024 15:30:00'',
       Quantity = Fin 1, Symbol = ''XYZ'',
       Security_Info = ''MAR'' @ [CHR 0x27] @ ''15'' @ [CHR 0x27] @ ''24 100.0 CALL'',
       Currency = ''USD'', Price = Fin 0, Commission = Fin 0, Unrealized_PnL = VStr [],
       Realized_PnL = VStr [], Exchange = ''CBOE''\<rparr>,
      \<lparr>Account = ''U1'', Action = ''BOT'', Date_Time = ''01.03.2024 15:30:00'',
       Quantity = Fin 100, Symbol = ''XYZ'', Security_Info = ''STOCK'',
       Currency = ''USD'', Price = Fin 100, Commission = Fin 1, Unrealized_PnL = VStr [],
       Realized_PnL = VStr [], Exchange = ''SMART''\<rparr>]"

text \<open>A batch whose only fill is a future, and one whose only fill has no expiry.\<close>

definition future_app :: app where
  "future_app = \<lparr>executions = [(future_contract, purchase_execution)], commission_report = Map.empty\<rparr>"

definition no_expiry_app :: app where
  "no_expiry_app =
     \<lparr>executions = [(no_expiry_contract, purchase_execution)], commission_report = Map.empty\<rparr>"

text \<open>Records of one timestamp, for the examples of \<open>process_combos\<close>.\<close>

definition leg :: "string \<Rightarrow> string \<Rightarrow> string \<Rightarrow> pyfloat \<Rightarrow> pyval \<Rightarrow> trade" where
  "leg sy ex info p pnl =
     \<lparr>Account = ''U1'', Action = ''BOT'', Date_Time = ''01.03.2024 15:30:00'', Quantity = Fin 1,
      Symbol = sy, Security_Info = info, Currency = ''USD'', Price = p, Commission = Fin 1,
      Unrealized_PnL = VStr [], Realized_PnL = pnl, Exchange = ex\<rparr>"

text \<open>The combo of the specification: two calls off the SMART exchange and the primary leg.\<close>

definition call_100 :: trade where
  "call_100 = leg ''XYZ'' ''CBOE'' ''MAR'15'24 100 CALL'' (Fin (- 2)) (VFloat (Fin 50))"

definition call_105 :: trade where
  "call_105 = leg ''XYZ'' ''CBOE'' ''MAR'15'24 105 CALL'' (Fin 1) (VFloat (Fin (- 20)))"

definition primary :: trade where
  "primary = leg ''XYZ'' ''SMART'' ''MAR'15'24 100 CALL'' (Fin 1) (VFloat (Fin 7))"










section \<open>Properties of \<open>mark_assigned_options\<close> and \<open>process_executions\<close>\<close>

lemma stock_index_dom:
  "(stock_index m ts k \<noteq> None) =
     (m k \<noteq> None \<or> (\<exists>t\<in>set ts. Security_Info t = ''STOCK'' \<and> trade_key t = k))"
  by (induction ts arbitrary: m) auto

lemma stock_index_empty:
  "(stock_index Map.empty ts k \<noteq> None) =
     (\<exists>t\<in>set ts. Security_Info t = ''STOCK'' \<and> trade_key t = k)"
  using stock_index_dom [of Map.empty ts k] by simp

lemma mark_trade_fields:
  "Security_Info (mark_trade m t) = Security_Info t"
  "trade_key (mark_trade m t) = trade_key t"
  "Price (mark_trade m t) = Price t"
  "Commission (mark_trade m t) = Commission t"
  "Symbol (mark_trade m t) = Symbol t"
  "Date_Time (mark_trade m t) = Date_Time t"
  by (simp_all add: mark_trade_def trade_key_def)

lemma mark_trade_more: "mark_trade m t = t\<lparr>Action := Action (mark_trade m t)\<rparr>"
  by (simp add: mark_trade_def)

lemma mark_trade_stock: "Security_Info t = ''STOCK'' \<Longrightarrow> mark_trade m t = t"
  by (simp add: mark_trade_def)

lemma mark_trade_cong:
  "(m (trade_key t) \<noteq> None) = (m' (trade_key t) \<noteq> None) \<Longrightarrow> mark_trade m t = mark_trade m' t"
  by (auto simp add: mark_trade_def)

lemma mark_trade_idem: "mark_trade m (mark_trade m t) = mark_trade m t"
  by (simp add: mark_trade_def trade_key_def)

lemma stock_index_mark:
  "(stock_index Map.empty (map (mark_trade m) ts) k \<noteq> None) = (stock_index Map.empty ts k \<noteq> None)"
proof -
  have "(\<exists>t\<in>set ts. Security_Info (mark_trade m t) = ''STOCK'' \<and> trade_key (mark_trade m t) = k)
        = (\<exists>t\<in>set ts. Security_Info t = ''STOCK'' \<and> trade_key t = k)"
    by (simp add: mark_trade_fields)
  then show ?thesis
    using stock_index_empty [of "map (mark_trade m) ts" k] stock_index_empty [of ts k]
    by simp
qed

lemma mark_assigned_options_idem:
  "mark_assigned_options (mark_assigned_options trade_data) = mark_assigned_options trade_data"
proof -
  let ?m = "stock_index Map.empty trade_data"
  let ?m' = "stock_index Map.empty (map (mark_trade ?m) trade_data)"
  have "mark_trade ?m' (mark_trade ?m t) = mark_trade ?m t" for t
  proof -
    have "mark_trade ?m' (mark_trade ?m t) = mark_trade ?m (mark_trade ?m t)"
      by (rule mark_trade_cong) (rule stock_index_mark)
    then show ?thesis
      by (simp add: mark_trade_idem)
  qed
  then show ?thesis
    by (simp add: mark_assigned_options_def)
qed

lemma normalize_fields:
  assumes "normalize_execution fs cr prev (c, e) = Inr (t, b)"
  shows "Price t = price e" "Commission t = commission_value_of cr e"
    "Action t = (if py_feq (price e) (Fin 0) \<and> py_feq (commission_value_of cr e) (Fin 0)
                 then ''EXPIRED'' else side_action e)"
    "Realized_PnL t = realized_pnl_of (realized_pnl_from_tws cr e)"
    "Symbol t = symbol c" "Date_Time t = exec_time_of e"
    "b = Some (Security_Info t)"
  using assms
  by (auto simp add: normalize_execution_def Let_def split: sum.splits option.splits)

lemma process_loop_nth:
  "process_loop fs cr prev ces = Inr tds \<Longrightarrow>
     length tds = length ces \<and>
     (\<forall>i<length ces. \<exists>p b. normalize_execution fs cr p (ces ! i) = Inr (tds ! i, b))"
proof (induction ces arbitrary: prev tds)
  case Nil
  then show ?case by simp
next
  case (Cons ce rest)
  from Cons.prems obtain t b ts where
    n: "normalize_execution fs cr prev ce = Inr (t, b)" and
    r: "process_loop fs cr b rest = Inr ts" and
    tds: "tds = t # ts"
    by (auto split: sum.splits)
  from Cons.IH [OF r] have
    len: "length ts = length rest" and
    ih: "\<forall>i<length rest. \<exists>p b. normalize_execution fs cr p (rest ! i) = Inr (ts ! i, b)"
    by auto
  show ?case
  proof (intro conjI allI impI)
    show "length tds = length (ce # rest)" using len tds by simp
  next
    fix i assume "i < length (ce # rest)"
    then show "\<exists>p b. normalize_execution fs cr p ((ce # rest) ! i) = Inr (tds ! i, b)"
      using n ih tds by (cases i) auto
  qed
qed

section \<open>Properties of \<open>process_combos\<close>\<close>

subsection \<open>Which exceptions leave a group\<close>






















subsection \<open>The partition of a batch\<close>

lemma partition_trades_snoc:
  "partition_trades (td @ [t]) = partition_step (partition_trades td) t"
  by (simp add: partition_trades_def)

lemma partition_trades_Nil:
  "partition_trades [] = \<lparr>trade_groups = [], stocks_trades = [], parse_error_trades = []\<rparr>"
  by (simp add: partition_trades_def)







subsection \<open>The size of the ledger\<close>




subsection \<open>When the descriptor of a combo is computed\<close>





subsection \<open>From the groups to the ledger\<close>









section \<open>Evaluating the examples\<close>

lemma str_nat_digit: "n < 10 \<Longrightarrow> str_nat n = [digit_char n]"
  by (simp add: str_nat.simps)

lemma str_nat_step: "10 \<le> n \<Longrightarrow> str_nat n = str_nat (n div 10) @ [digit_char n]"
  by (subst str_nat.simps) simp

lemmas rx_defs =
  make_datetime_def rx_then_def rx_skip_def rx_hms_def rx_d_def rx_m_def rx_Y_def rx_H_def
  rx_M_def rx_S_def rx2_def rx1_def rx_lit_def rx_spaces_def in_chars_def is_digit_def
  is_space_def digit_val_def digits_val_def days_in_month_def leap_year_def

lemmas strftime_defs =
  strftime_display_def pad2_def str_nat_digit str_nat_step digit_char_def

lemma exec_time_example:
  "time e = ''20240301  15:30:00'' \<Longrightarrow> exec_time_of e = ''01.03.2024 15:30:00''"
  by (simp add: exec_time_of_def strptime_tws_def rx_defs strftime_defs)

lemma option_security_info_example:
  "option_security_info example_float_str option_contract =
     Inr (''MAR'' @ [CHR 0x27] @ ''15'' @ [CHR 0x27] @ ''24 100.0 CALL'')"
  by (simp add: option_security_info_def option_contract_def example_float_str_def py_int_str_def
      strip_def split_sign_def is_space_def is_digit_def digits_val_def digit_val_def py_index_def
      month_names_def format_02d_def last_two_def str_int_def str_nat_digit str_nat_step
      digit_char_def)

lemma assignment_app_normalized:
  "process_executions example_float_str assignment_app = Inr assignment_trades"
  by (simp add: process_executions_def assignment_app_def normalize_execution_def
      bind_security_info_def option_security_info_example exec_time_example
      commission_value_of_def realized_pnl_from_tws_def realized_pnl_of_def
      zero_price_execution_def purchase_execution_def stock_contract_def side_action_def
      py_fne_def MAX_FLOAT_SENTINEL_def DBL_MAX_def assignment_trades_def Let_def)
    (simp add: option_contract_def)

lemma future_app_raises:
  "process_executions float_str future_app = Inl UnboundLocalError"
  by (simp add: process_executions_def future_app_def normalize_execution_def
      bind_security_info_def future_contract_def Let_def)

lemma no_expiry_app_raises:
  "process_executions float_str no_expiry_app = Inl ValueError"
  by (simp add: process_executions_def no_expiry_app_def normalize_execution_def
      bind_security_info_def no_expiry_contract_def option_contract_def option_security_info_def
      py_int_str_def strip_def split_sign_def)

lemma time_key_example:
  "Date_Time t = ''01.03.2024 15:30:00'' \<Longrightarrow> time_key t = Some (Symbol t, ''01.03.2024 15:30:00'')"
  by (simp add: time_key_def strptime_display_def rx_defs strftime_defs)

lemma split_ws_call_100: "split_ws ''MAR'15'24 100 CALL'' = [''MAR'15'24'', ''100'', ''CALL'']"
  by (simp add: split_ws_def is_space_def)

lemma split_ws_call_105: "split_ws ''MAR'15'24 105 CALL'' = [''MAR'15'24'', ''105'', ''CALL'']"
  by (simp add: split_ws_def is_space_def)

lemmas float_str_defs =
  py_float_str_def strip_def strip_underscores.simps split_sign_def lower_char_def
  parse_decimal_def parse_exponent_def dec_value_def fin_or_inf_def is_space_def is_digit_def
  digits_val_def digit_val_def

lemma py_float_str_100: "py_float_str ''100'' = Some (Fin 100)"
  by (simp add: float_str_defs)

lemma py_float_str_105: "py_float_str ''105'' = Some (Fin 105)"
  by (simp add: float_str_defs)

lemma strike_of_call_100:
  "Security_Info t = ''MAR'15'24 100 CALL'' \<Longrightarrow> strike_of t = Inr (Fin 100)"
  by (simp add: strike_of_def split_ws_call_100 py_float_str_100)

lemma strike_of_call_105:
  "Security_Info t = ''MAR'15'24 105 CALL'' \<Longrightarrow> strike_of t = Inr (Fin 105)"
  by (simp add: strike_of_def split_ws_call_105 py_float_str_105)

lemma str_int_100: "str_int 100 = ''100''"
  by (simp add: str_int_def str_nat_digit str_nat_step digit_char_def)

lemma str_int_105: "str_int 105 = ''105''"
  by (simp add: str_int_def str_nat_digit str_nat_step digit_char_def)

lemma combined_security_info_calls:
  assumes "Security_Info a = ''MAR'15'24 100 CALL''" and "Security_Info b = ''MAR'15'24 105 CALL''"
  shows "combined_security_info [a, b] = Inr ''MAR'15'24 105/100''"
    and "combined_security_info [b, a] = Inr ''MAR'15'24 105/100''"
  using assms
  by (simp_all add: combined_security_info_def strike_of_call_100 strike_of_call_105 sorted_by_def
      sorted_reverse_def type_of_def split_ws_call_100 split_ws_call_105 str_int_100 str_int_105)

lemma pnl_sum_calls:
  assumes "Realized_PnL a = VFloat (Fin 50)" and "Realized_PnL b = VFloat (Fin (- 20))"
  shows "pnl_sum_of [a, b] = Fin 30" and "pnl_sum_of [b, a] = Fin 30"
  using assms by (simp_all add: pnl_sum_of_def pnl_step_def fin_or_inf_def)

lemma process_group_netting:
  assumes ex: "Exchange a \<noteq> ''SMART''" "Exchange b \<noteq> ''SMART''" "Exchange s = ''SMART''"
    and a: "Security_Info a = ''MAR'15'24 100 CALL''" "Realized_PnL a = VFloat (Fin 50)"
    and b: "Security_Info b = ''MAR'15'24 105 CALL''" "Realized_PnL b = VFloat (Fin (- 20))"
    and neg: "py_flt (Price a) (Fin 0) \<or> py_flt (Price b) (Fin 0)"
    and prior: "Realized_PnL s = VStr [] \<or> Realized_PnL s = VFloat p"
    and trades: "trades \<in> set [[a, b, s], [a, s, b], [b, a, s], [b, s, a], [s, a, b], [s, b, a]]"
  shows "process_group trades =
           Inr [s\<lparr>Security_Info := ''MAR'15'24 105/100'',
                  Realized_PnL := (if Realized_PnL s = VStr [] then VFloat (Fin 30)
                                   else VFloat (py_fadd p (Fin 30)))\<rparr>]"
proof -
  have ns: "non_smart trades = [a, b] \<or> non_smart trades = [b, a]"
    using trades ex by (auto simp add: non_smart_def is_smart_def)
  have info: "combined_security_info (non_smart trades) = Inr ''MAR'15'24 105/100''"
    using ns combined_security_info_calls [OF a(1) b(1)] by auto
  have pnl: "pnl_sum_of (non_smart trades) = Fin 30"
    using ns pnl_sum_calls [OF a(2) b(2)] by auto
  have sm: "filter is_smart trades = [s]" "list_ex is_smart trades"
    using trades ex by (auto simp add: is_smart_def)
  have n: "has_negative trades" "\<not> length trades \<le> 1"
    using trades neg by (auto simp add: has_negative_def)
  have f: "fold_into_primary ''MAR'15'24 105/100'' (Fin 30) s =
             s\<lparr>Security_Info := ''MAR'15'24 105/100'',
               Realized_PnL := (if Realized_PnL s = VStr [] then VFloat (Fin 30)
                                else VFloat (py_fadd p (Fin 30)))\<rparr>"
  proof (cases "Realized_PnL s = VStr []")
    case True
    then show ?thesis by (simp add: fold_into_primary_def py_fne_def)
  next
    case False
    with prior have p: "Realized_PnL s = VFloat p" by simp
    show ?thesis
    proof (cases "p = Fin 0")
      case True
      with p show ?thesis by (simp add: fold_into_primary_def py_fne_def fin_or_inf_def)
    next
      case False
      with p show ?thesis by (simp add: fold_into_primary_def py_fne_def)
    qed
  qed
  show ?thesis
    using n by (simp add: process_group_def info pnl sm f)
qed

lemma partition_one_group:
  assumes "\<forall>t\<in>set trades. Security_Info t \<noteq> ''STOCKS'' \<and> time_key t = Some k"
  shows "partition_trades trades =
           \<lparr>trade_groups = (if trades = [] then [] else [(k, trades)]),
            stocks_trades = [], parse_error_trades = []\<rparr>"
  using assms
proof (induction trades rule: rev_induct)
  case Nil
  then show ?case by (simp add: partition_trades_Nil)
next
  case (snoc t trades)
  then show ?case
    by (simp add: partition_trades_snoc partition_step_def)
qed

subsection \<open>Evaluating the combo examples\<close>















section \<open>Claims about normalization and the Assignment Classifier\<close>

lemma process_executions_length:
  assumes "process_executions float_str a = Inr trade_data"
  shows "length trade_data = length (executions a)"
  using process_loop_nth [of float_str "commission_report a" None "executions a" trade_data] assms
  by (simp add: process_executions_def)

lemma process_executions_nth:
  assumes "process_executions float_str a = Inr trade_data" and "i < length (executions a)"
  shows "\<exists>p b. normalize_execution float_str (commission_report a) p
                 (fst (executions a ! i), snd (executions a ! i)) = Inr (trade_data ! i, b)"
  using process_loop_nth [of float_str "commission_report a" None "executions a" trade_data] assms
  by (simp add: process_executions_def)

lemma normalized_action:
  assumes "process_executions float_str a = Inr trade_data" and "i < length trade_data"
  shows "Action (trade_data ! i) =
           (if py_feq (Price (trade_data ! i)) (Fin 0) \<and> py_feq (Commission (trade_data ! i)) (Fin 0)
            then ''EXPIRED'' else side_action (snd (executions a ! i)))"
proof -
  from assms process_executions_length [OF assms(1)] have i: "i < length (executions a)"
    by simp
  from process_executions_nth [OF assms(1) i] obtain p b where
    n: "normalize_execution float_str (commission_report a) p
          (fst (executions a ! i), snd (executions a ! i)) = Inr (trade_data ! i, b)" by blast
  from normalize_fields(1-3) [OF n] show ?thesis by simp
qed

lemma normalized_member_action:
  assumes "process_executions float_str a = Inr out" and "t \<in> set out"
    and "py_feq (Price t) (Fin 0)" and "py_feq (Commission t) (Fin 0)"
  shows "Action t = ''EXPIRED''"
proof -
  from assms(2) obtain i where i: "i < length out" "out ! i = t"
    by (auto simp add: in_set_conv_nth)
  from normalized_action [OF assms(1) i(1)] i(2) assms(3,4) show ?thesis
    by simp
qed

lemma assignment_trades_normalized:
  "\<forall>t\<in>set assignment_trades.
     \<exists>float_str a out. process_executions float_str a = Inr out \<and> t \<in> set out"
  using assignment_app_normalized by blast

text \<open>
  C9. Idempotence of the Assignment Classifier: applying \<open>mark_assigned_options\<close> to its
  own result changes nothing, for every batch of records.
\<close>

theorem mark_assigned_options_idempotent:
  "mark_assigned_options (mark_assigned_options trade_data) = mark_assigned_options trade_data"
  by (rule mark_assigned_options_idem)

text \<open>
  C5. Assignment versus expiration: in a batch of records that normalization produced (in
  one run of \<open>process_executions\<close> or in several, as when the fills of several
  connections are put together), a record that is no stock record and has Price == 0
  and Commission == 0 has, after \<open>mark_assigned_options\<close>, the Action ASSIGNED if the
  batch holds a stock record with its Symbol and Date_Time, and the Action EXPIRED if
  it holds none.
\<close>

theorem assigned_or_expired:
  assumes norm: "\<forall>t\<in>set trade_data.
                   \<exists>float_str a out. process_executions float_str a = Inr out \<and> t \<in> set out"
    and i: "i < length trade_data"
    and ns: "Security_Info (trade_data ! i) \<noteq> ''STOCK''"
    and p0: "py_feq (Price (trade_data ! i)) (Fin 0)"
    and c0: "py_feq (Commission (trade_data ! i)) (Fin 0)"
  shows "Action (mark_assigned_options trade_data ! i) =
           (if \<exists>s\<in>set trade_data. Security_Info s = ''STOCK'' \<and> Symbol s = Symbol (trade_data ! i)
                 \<and> Date_Time s = Date_Time (trade_data ! i)
            then ''ASSIGNED'' else ''EXPIRED'')"
proof -
  let ?t = "trade_data ! i"
  from i have "?t \<in> set trade_data" by simp
  with norm obtain float_str a out where
    "process_executions float_str a = Inr out" "?t \<in> set out" by blast
  from normalized_member_action [OF this p0 c0] have e: "Action ?t = ''EXPIRED''" .
  have k: "(stock_index Map.empty trade_data (trade_key ?t) \<noteq> None) =
           (\<exists>s\<in>set trade_data. Security_Info s = ''STOCK'' \<and> Symbol s = Symbol ?t
              \<and> Date_Time s = Date_Time ?t)"
    using stock_index_empty [of trade_data "trade_key ?t"]
    by (simp add: trade_key_def)
  have "mark_assigned_options trade_data ! i = mark_trade (stock_index Map.empty trade_data) ?t"
    using i by (simp add: mark_assigned_options_def)
  then show ?thesis
    using ns p0 c0 e k by (auto simp add: mark_trade_def)
qed

theorem assigned_or_expired_witness:
  "process_executions example_float_str assignment_app = Inr assignment_trades
   \<and> Security_Info (assignment_trades ! 0) \<noteq> ''STOCK''
   \<and> py_feq (Price (assignment_trades ! 0)) (Fin 0)
   \<and> py_feq (Commission (assignment_trades ! 0)) (Fin 0)
   \<and> Action (mark_assigned_options assignment_trades ! 0) = ''ASSIGNED''"
  using assigned_or_expired [OF assignment_trades_normalized, of 0] assignment_app_normalized
  by (simp add: assignment_trades_def)

text \<open>
  C6. For every raw execution the normalized record carries the Action BOT when the
  side of the execution is BOT (bought) and SLD otherwise, unless the price and the
  resolved commission are both zero, in which case the override of line 142 wrote
  EXPIRED; and there is one record per execution.
\<close>

theorem action_from_side:
  assumes "process_executions float_str a = Inr trade_data"
    and "i < length (executions a)"
  shows "length trade_data = length (executions a) \<and>
         Action (trade_data ! i) =
           (if py_feq (price (snd (executions a ! i))) (Fin 0)
               \<and> py_feq (commission_value_of (commission_report a) (snd (executions a ! i))) (Fin 0)
            then ''EXPIRED''
            else if side (snd (executions a ! i)) = ''BOT'' then ''BOT'' else ''SLD'')"
proof -
  from process_executions_nth [OF assms] obtain p b where
    n: "normalize_execution float_str (commission_report a) p
          (fst (executions a ! i), snd (executions a ! i)) = Inr (trade_data ! i, b)" by blast
  from normalize_fields(3) [OF n] process_executions_length [OF assms(1)] show ?thesis
    by (simp add: side_action_def)
qed

theorem action_from_side_witness:
  "process_executions example_float_str assignment_app = Inr assignment_trades
   \<and> (1::nat) < length (executions assignment_app)
   \<and> side (snd (executions assignment_app ! 1)) = ''BOT''
   \<and> Action (assignment_trades ! 1) = ''BOT''"
  using action_from_side [of example_float_str assignment_app assignment_trades 1]
    assignment_app_normalized
  by (simp add: assignment_trades_def assignment_app_def purchase_execution_def)

text \<open>
  C7. Override once: for a record of a batch that normalization produced,
  \<open>mark_assigned_options\<close> changes the Action only if it is none of ASSIGNED, BOT, SLD,
  so that a record that enters with BOT or SLD leaves with the same Action; it changes
  no other field; and a second application changes nothing more.
\<close>

theorem override_once:
  assumes norm: "\<forall>t\<in>set trade_data.
                   \<exists>float_str a out. process_executions float_str a = Inr out \<and> t \<in> set out"
    and i: "i < length trade_data"
  shows "(Action (mark_assigned_options trade_data ! i) \<noteq> Action (trade_data ! i) \<longrightarrow>
            Action (trade_data ! i) \<notin> {''ASSIGNED'', ''BOT'', ''SLD''})
         \<and> (Action (trade_data ! i) \<in> {''BOT'', ''SLD''} \<longrightarrow>
              Action (mark_assigned_options trade_data ! i) = Action (trade_data ! i))
         \<and> mark_assigned_options trade_data ! i =
             (trade_data ! i)\<lparr>Action := Action (mark_assigned_options trade_data ! i)\<rparr>
         \<and> mark_assigned_options (mark_assigned_options trade_data) ! i =
             mark_assigned_options trade_data ! i"
proof -
  let ?t = "trade_data ! i"
  let ?m = "stock_index Map.empty trade_data"
  have m: "mark_assigned_options trade_data ! i = mark_trade ?m ?t"
    using i by (simp add: mark_assigned_options_def)
  from i have "?t \<in> set trade_data" by simp
  with norm obtain float_str a out where
    "process_executions float_str a = Inr out" "?t \<in> set out" by blast
  then have a: "py_feq (Price ?t) (Fin 0) \<and> py_feq (Commission ?t) (Fin 0) \<longrightarrow> Action ?t = ''EXPIRED''"
    using normalized_member_action by blast
  have c: "Action (mark_trade ?m ?t) \<noteq> Action ?t \<longrightarrow> Action ?t = ''EXPIRED''"
    using a by (simp add: mark_trade_def)
  have "Action (mark_trade ?m ?t) \<noteq> Action ?t \<longrightarrow> Action ?t \<notin> {''ASSIGNED'', ''BOT'', ''SLD''}"
    using c by auto
  moreover have "Action ?t \<in> {''BOT'', ''SLD''} \<longrightarrow> Action (mark_trade ?m ?t) = Action ?t"
    using c by auto
  moreover have "mark_trade ?m ?t = ?t\<lparr>Action := Action (mark_trade ?m ?t)\<rparr>"
    by (rule mark_trade_more)
  ultimately show ?thesis
    by (simp only: m mark_assigned_options_idem)
qed

theorem override_once_witness:
  "process_executions example_float_str assignment_app = Inr assignment_trades
   \<and> Action (assignment_trades ! 1) = ''BOT''
   \<and> Action (mark_assigned_options assignment_trades ! 1) = ''BOT''
   \<and> Action (assignment_trades ! 0) = ''EXPIRED''
   \<and> Action (mark_assigned_options assignment_trades ! 0) = ''ASSIGNED''"
  using override_once [OF assignment_trades_normalized, of 1] assignment_app_normalized
  by (simp add: assignment_trades_def mark_assigned_options_def mark_trade_def trade_key_def)

text \<open>
  C4. Sentinel handling: when the commission record of an execution is present and its
  realized PnL is a float whose absolute value equals the sentinel
  1.7976931348623157e+308, the normalized record has the empty Realized_PnL.
\<close>

theorem sentinel_realized_pnl_empty:
  assumes "process_executions float_str a = Inr trade_data"
    and "i < length (executions a)"
    and "commission_report a (execId (snd (executions a ! i))) = Some r"
    and "cr_realizedPNL r = VFloat f"
    and "py_fabs f = MAX_FLOAT_SENTINEL"
  shows "Realized_PnL (trade_data ! i) = VStr []"
proof -
  from process_executions_nth [OF assms(1,2)] obtain p b where
    n: "normalize_execution float_str (commission_report a) p
          (fst (executions a ! i), snd (executions a ! i)) = Inr (trade_data ! i, b)" by blast
  from normalize_fields(4) [OF n] assms(3-5) show ?thesis
    by (simp add: realized_pnl_from_tws_def realized_pnl_of_def py_fne_def MAX_FLOAT_SENTINEL_def)
qed

theorem sentinel_realized_pnl_empty_witness:
  "process_executions example_float_str assignment_app = Inr assignment_trades
   \<and> commission_report assignment_app (execId (snd (executions assignment_app ! 1)))
       = Some \<lparr>cr_commission = Fin 1, cr_currency = ''USD'', cr_realizedPNL = VFloat MAX_FLOAT_SENTINEL\<rparr>
   \<and> py_fabs MAX_FLOAT_SENTINEL = MAX_FLOAT_SENTINEL
   \<and> Realized_PnL (assignment_trades ! 1) = VStr []"
  using sentinel_realized_pnl_empty [of example_float_str assignment_app assignment_trades 1
      "\<lparr>cr_commission = Fin 1, cr_currency = ''USD'', cr_realizedPNL = VFloat MAX_FLOAT_SENTINEL\<rparr>"
      MAX_FLOAT_SENTINEL]
    assignment_app_normalized
  by (simp add: assignment_app_def purchase_execution_def MAX_FLOAT_SENTINEL_def DBL_MAX_def)

text \<open>
  C2. The claim: the core pipeline returns normally on every batch. The code does not:
  a fill of a class other than STK, OPT and FOP that comes first in the batch reads the
  unbound variable \<open>security_info\<close> at line 173, and an option fill whose expiry is no
  date raises the ValueError of \<open>int\<close> at line 123; neither is caught.
\<close>

theorem core_pipeline_raises:
  "core_pipeline float_str future_app = Inl UnboundLocalError
   \<and> core_pipeline float_str no_expiry_app = Inl ValueError"
  by (simp add: core_pipeline_def future_app_raises no_expiry_app_raises)

section \<open>Claims about \<open>process_combos\<close>\<close>

text \<open>
  C1. The combo netting example: a batch of exactly three records with Symbol XYZ and
  Date_Time 01.03.2024 15:30:00, two of them off the SMART exchange with Security_Info
  MAR'15'24 100 CALL (Realized_PnL 50) and MAR'15'24 105 CALL (Realized_PnL -20), one of
  the two with a negative Price, and the third on SMART (an option record as in the
  specification, that is, not marked STOCKS) with an empty or a float Realized_PnL.
  In whatever order the three come, the ledger is the SMART record alone, with
  Security_Info MAR'15'24 105/100 and Realized_PnL 30 added to its float (30 if it was
  empty); the two other records are not in the ledger.
\<close>

theorem combo_netting_example:
  assumes sy: "Symbol a = ''XYZ''" "Symbol b = ''XYZ''" "Symbol s = ''XYZ''"
    and tm: "Date_Time a = ''01.03.2024 15:30:00''" "Date_Time b = ''01.03.2024 15:30:00''"
      "Date_Time s = ''01.03.2024 15:30:00''"
    and ex: "Exchange a \<noteq> ''SMART''" "Exchange b \<noteq> ''SMART''" "Exchange s = ''SMART''"
    and a: "Security_Info a = ''MAR'15'24 100 CALL''" "Realized_PnL a = VFloat (Fin 50)"
    and b: "Security_Info b = ''MAR'15'24 105 CALL''" "Realized_PnL b = VFloat (Fin (- 20))"
    and neg: "py_flt (Price a) (Fin 0) \<or> py_flt (Price b) (Fin 0)"
    and s: "Security_Info s \<noteq> ''STOCKS''"
    and prior: "Realized_PnL s = VStr [] \<or> Realized_PnL s = VFloat p"
    and batch: "batch \<in> set [[a, b, s], [a, s, b], [b, a, s], [b, s, a], [s, a, b], [s, b, a]]"
  shows "process_combos batch =
           Inr [s\<lparr>Security_Info := ''MAR'15'24 105/100'',
                  Realized_PnL := (if Realized_PnL s = VStr [] then VFloat (Fin 30)
                                   else VFloat (py_fadd p (Fin 30)))\<rparr>]
         \<and> (\<forall>ledger. process_combos batch = Inr ledger \<longrightarrow> a \<notin> set ledger \<and> b \<notin> set ledger)"
proof -
  let ?k = "(''XYZ'', ''01.03.2024 15:30:00'')"
  let ?s = "s\<lparr>Security_Info := ''MAR'15'24 105/100'',
              Realized_PnL := (if Realized_PnL s = VStr [] then VFloat (Fin 30)
                               else VFloat (py_fadd p (Fin 30)))\<rparr>"
  have "\<forall>t\<in>set batch. Security_Info t \<noteq> ''STOCKS'' \<and> time_key t = Some ?k"
    using batch sy tm a(1) b(1) s by (auto simp add: time_key_example)
  from partition_one_group [OF this] batch
  have p: "partition_trades batch =
             \<lparr>trade_groups = [(?k, batch)], stocks_trades = [], parse_error_trades = []\<rparr>"
    by auto
  have g: "process_group batch = Inr [?s]"
    by (rule process_group_netting [OF ex a b neg prior batch])
  have r: "process_combos batch = Inr [?s]"
    by (simp add: process_combos_def p g)
  have "Exchange ?s = ''SMART''" using ex(3) by simp
  with ex(1,2) have "a \<noteq> ?s" "b \<noteq> ?s" by auto
  with r show ?thesis by simp
qed

theorem combo_netting_example_witness:
  "Exchange call_100 \<noteq> ''SMART'' \<and> Exchange call_105 \<noteq> ''SMART'' \<and> Exchange primary = ''SMART''
   \<and> py_flt (Price call_100) (Fin 0) \<and> Realized_PnL primary = VFloat (Fin 7)
   \<and> process_combos [call_100, call_105, primary] =
       Inr [primary\<lparr>Security_Info := ''MAR'15'24 105/100'', Realized_PnL := VFloat (Fin 37)\<rparr>]"
  using combo_netting_example [of call_100 call_105 primary "Fin 7" "[call_100, call_105, primary]"]
  by (simp add: call_100_def call_105_def primary_def leg_def fin_or_inf_def)










end
